theory Spec2Isabelle
  imports Complex_Main
begin

section \<open>Numeric model and Python containers\<close>

text \<open>
  The indicators of \<^verbatim>\<open>Stocks/R1_LinearRegression/indicators.py\<close> compute on
  \<^verbatim>\<open>np.float64\<close>. A finite float is modelled by the real number it denotes and the
  four operations by the exact ones: rounding, overflow and infinities are not part of the
  model. The not-a-number sentinel that the channel lines hold before a window is full is
  a constructor of its own, and so is a cell of \<^verbatim>\<open>np.empty\<close> that was never written.
  Python integers (\<^verbatim>\<open>period\<close>, \<^verbatim>\<open>lookback\<close>, \<^verbatim>\<open>cluster_number\<close>) are \<open>int\<close>.
\<close>

datatype py_error = IndexError | AttributeError | ValueError






section \<open>The windowed regression estimator\<close>











section \<open>The regression channel: batch pass and per-bar update\<close>




text \<open>
  Modelled from the spec: the line accessor \<^verbatim>\<open>get(size=...)\<close> belongs to the
  backtesting framework, whose code is not part of the repository. Following the
  description of the window (the last \<open>N\<close> observations, fewer while the history is
  shorter), it returns the last \<open>size\<close> values of the line, or all of them when there
  are fewer.
\<close>

definition data_get :: "int \<Rightarrow> 'a list \<Rightarrow> 'a list" where
  "data_get sz buf = drop (length buf - nat sz) buf"








section \<open>The volatility gauge\<close>

text \<open>A data feed: its \<^verbatim>\<open>_name\<close> attribute when it has one, and its bars, oldest
  first, as (high, low) pairs.\<close>

record feed =
  feed_name :: "string option"
  bars :: "(real \<times> real) list"

text \<open>\<^verbatim>\<open>np.max\<close> and \<^verbatim>\<open>np.min\<close> raise on an empty array.\<close>

fun np_max :: "real list \<Rightarrow> py_error + real" where
  "np_max [] = Inl ValueError"
| "np_max (x # xs) = Inr (fold max xs x)"

fun np_min :: "real list \<Rightarrow> py_error + real" where
  "np_min [] = Inl ValueError"
| "np_min (x # xs) = Inr (fold min xs x)"

record volatility_calculator =
  vc_data :: feed
  vc_period :: int
  vc_volatility :: real

definition VolatilityCalculator_init :: "feed \<Rightarrow> int \<Rightarrow> volatility_calculator" where
  "VolatilityCalculator_init data period =
     \<lparr>vc_data = data, vc_period = period, vc_volatility = 0\<rparr>"

text \<open>\<^verbatim>\<open>VolatilityCalculator.calculate\<close>: the returned value and the object with
  \<^verbatim>\<open>self.volatility\<close> updated. The last case is the \<^verbatim>\<open>except Exception\<close> handler.\<close>

definition VolatilityCalculator_calculate :: "volatility_calculator
    \<Rightarrow> real \<times> volatility_calculator" where
  "VolatilityCalculator_calculate self =
     (if length (bars (vc_data self)) < 1 then (0, self)
      else
        let data_len = int (length (bars (vc_data self)));
            actual_period = min (vc_period self) data_len;
            highs = data_get actual_period (map fst (bars (vc_data self)));
            lows = data_get actual_period (map snd (bars (vc_data self)))
        in if length highs = 0 \<or> length lows = 0 then (0, self\<lparr>vc_volatility := 0\<rparr>)
           else
             case (np_max highs, np_min lows) of
               (Inr max_price, Inr min_price) \<Rightarrow>
                 if min_price = 0 then (0, self\<lparr>vc_volatility := 0\<rparr>)
                 else
                   let move = max_price - min_price;
                       v = move / (min_price / 100)
                   in (v, self\<lparr>vc_volatility := v\<rparr>)
             | _ \<Rightarrow> (0, self\<lparr>vc_volatility := 0\<rparr>))"

section \<open>The volatility stage clusters\<close>

text \<open>An entry of \<^verbatim>\<open>sources_with_volatility\<close>.\<close>

record source =
  src_data :: feed
  src_volatility :: real
  src_name :: string

record vsc =
  cluster_one :: "string \<rightharpoonup> source"
  cluster_two :: "string \<rightharpoonup> source"
  cluster_three :: "string \<rightharpoonup> source"
  cluster_one_full :: "source list"
  cluster_two_full :: "source list"
  cluster_three_full :: "source list"
  one_lot :: real
  vsc_length :: int
  cluster_one_percent :: real
  cluster_two_percent :: real
  cluster_three_percent :: real

text \<open>\<^verbatim>\<open>VolatilityStageClusters.__init__\<close>.\<close>

definition VolatilityStageClusters_init :: "int \<Rightarrow> real \<Rightarrow> real \<Rightarrow> real \<Rightarrow> py_error + vsc" where
  "VolatilityStageClusters_init lookback one_percent two_percent three_percent =
     (let total_percent = one_percent + two_percent + three_percent in
      if \<bar>total_percent - 100\<bar> > 1 / 100 then Inl ValueError
      else Inr \<lparr>cluster_one = Map.empty, cluster_two = Map.empty, cluster_three = Map.empty,
                cluster_one_full = [], cluster_two_full = [], cluster_three_full = [],
                one_lot = 0, vsc_length = lookback,
                cluster_one_percent = one_percent, cluster_two_percent = two_percent,
                cluster_three_percent = three_percent\<rparr>)"

text \<open>The first loop of \<^verbatim>\<open>_calculate_clusters\<close>: feeds with fewer than
  \<^verbatim>\<open>self.length\<close> bars are skipped, the others get their volatility.\<close>

fun collect_sources :: "int \<Rightarrow> feed list \<Rightarrow> source list" where
  "collect_sources len [] = []"
| "collect_sources len (d # ds) =
     (if int (length (bars d)) < len then collect_sources len ds
      else
        \<lparr>src_data = d,
         src_volatility = fst (VolatilityCalculator_calculate (VolatilityCalculator_init d len)),
         src_name = (case feed_name d of Some n \<Rightarrow> n | None \<Rightarrow> ''Unknown'')\<rparr>
          # collect_sources len ds)"

text \<open>The second loop, \<^verbatim>\<open>for i in range(total_count)\<close>.\<close>

fun assign_loop :: "real \<Rightarrow> real \<Rightarrow> source list \<Rightarrow> nat list \<Rightarrow> vsc \<Rightarrow> vsc" where
  "assign_loop cluster_one_limit cluster_two_limit srcs [] self = self"
| "assign_loop cluster_one_limit cluster_two_limit srcs (i # is) self =
     (let position = real (i + 1) in
      assign_loop cluster_one_limit cluster_two_limit srcs is
        (if position \<le> cluster_one_limit then
           self\<lparr>cluster_one_full := cluster_one_full self @ [srcs ! i],
                cluster_one := (cluster_one self)(src_name (srcs ! i) \<mapsto> srcs ! i)\<rparr>
         else if position \<le> cluster_two_limit then
           self\<lparr>cluster_two_full := cluster_two_full self @ [srcs ! i],
                cluster_two := (cluster_two self)(src_name (srcs ! i) \<mapsto> srcs ! i)\<rparr>
         else
           self\<lparr>cluster_three_full := cluster_three_full self @ [srcs ! i],
                cluster_three := (cluster_three self)(src_name (srcs ! i) \<mapsto> srcs ! i)\<rparr>))"

text \<open>
  \<^verbatim>\<open>VolatilityStageClusters._calculate_clusters\<close>. A raised exception comes with the
  state the object is left in. With exactly one source the method calls \<^verbatim>\<open>append\<close>
  on \<^verbatim>\<open>self.cluster_one\<close>, which is a dict and has no such attribute. The sort is
  Python's stable \<^verbatim>\<open>list.sort\<close> on the key.
\<close>

definition calculate_clusters :: "vsc \<Rightarrow> feed list \<Rightarrow> py_error \<times> vsc + vsc" where
  "calculate_clusters self data_feeds =
     (if data_feeds = [] then Inr self
      else
        let sources_with_volatility = collect_sources (vsc_length self) data_feeds in
        if length sources_with_volatility \<le> 1 then
          (if length sources_with_volatility = 1 then Inl (AttributeError, self) else Inr self)
        else
          let sorted_sources = sort_key src_volatility sources_with_volatility;
              total_count = length sorted_sources;
              self1 = self\<lparr>one_lot := real total_count / 100\<rparr>;
              cluster_one_limit = cluster_one_percent self1 * one_lot self1;
              cluster_two_limit =
                (cluster_one_percent self1 + cluster_two_percent self1) * one_lot self1
          in Inr (assign_loop cluster_one_limit cluster_two_limit sorted_sources
                    [0..<total_count] self1))"

text \<open>\<^verbatim>\<open>VolatilityStageClusters.calculate\<close>: clear the six containers, then
  recompute.\<close>

definition clear_clusters :: "vsc \<Rightarrow> vsc" where
  "clear_clusters self =
     self\<lparr>cluster_one := Map.empty, cluster_two := Map.empty, cluster_three := Map.empty,
          cluster_one_full := [], cluster_two_full := [], cluster_three_full := []\<rparr>"

definition calculate :: "vsc \<Rightarrow> feed list \<Rightarrow> py_error \<times> vsc + vsc" where
  "calculate self data_feeds = calculate_clusters (clear_clusters self) data_feeds"

text \<open>\<^verbatim>\<open>VolatilityStageClusters.is_in_cluster\<close>: reading \<^verbatim>\<open>data._name\<close> raises when
  the feed has no such attribute.\<close>

definition is_in_cluster :: "vsc \<Rightarrow> feed \<Rightarrow> int \<Rightarrow> py_error + bool" where
  "is_in_cluster self data cluster_number =
     (if cluster_number = 1 then
        (case feed_name data of None \<Rightarrow> Inl AttributeError
         | Some n \<Rightarrow> Inr (n \<in> dom (cluster_one self)))
      else if cluster_number = 2 then
        (case feed_name data of None \<Rightarrow> Inl AttributeError
         | Some n \<Rightarrow> Inr (n \<in> dom (cluster_two self)))
      else if cluster_number = 3 then
        (case feed_name data of None \<Rightarrow> Inl AttributeError
         | Some n \<Rightarrow> Inr (n \<in> dom (cluster_three self)))
      else Inr False)"

section \<open>The estimator in the words of the specification\<close>













section \<open>Results of a recomputation and sample data\<close>

text \<open>The state a \<^verbatim>\<open>VolatilityStageClusters\<close> object is in after a call, whether the
  call returned or raised.\<close>

definition result_state :: "py_error \<times> vsc + vsc \<Rightarrow> vsc" where
  "result_state r = (case r of Inl (e, s) \<Rightarrow> s | Inr s \<Rightarrow> s)"

text \<open>The object right after \<^verbatim>\<open>VolatilityStageClusters(lookback)\<close> with the default
  33/33/34 split.\<close>

definition default_clusters :: "int \<Rightarrow> vsc" where
  "default_clusters lookback =
     \<lparr>cluster_one = Map.empty, cluster_two = Map.empty, cluster_three = Map.empty,
      cluster_one_full = [], cluster_two_full = [], cluster_three_full = [],
      one_lot = 0, vsc_length = lookback,
      cluster_one_percent = 33, cluster_two_percent = 33, cluster_three_percent = 34\<rparr>"


definition two_feeds :: "feed list" where
  "two_feeds =
     [\<lparr>feed_name = Some ''S01'', bars = [(101, 100)]\<rparr>,
      \<lparr>feed_name = Some ''S02'', bars = [(102, 100)]\<rparr>]"

section \<open>Properties of the estimator\<close>




















section \<open>A window on a line\<close>












section \<open>Batch pass and per-bar update agree\<close>

















section \<open>Properties of the volatility gauge\<close>

lemma np_max_Max: "xs \<noteq> [] \<Longrightarrow> np_max xs = Inr (Max (set xs))"
proof (cases xs)
  case (Cons a list)
  then show ?thesis
    using Max.set_eq_fold [of a list] by simp
qed simp

lemma np_min_Min: "xs \<noteq> [] \<Longrightarrow> np_min xs = Inr (Min (set xs))"
proof (cases xs)
  case (Cons a list)
  then show ?thesis
    using Min.set_eq_fold [of a list] by simp
qed simp

lemma data_get_map: "data_get n (map f xs) = map f (data_get n xs)"
  by (simp add: data_get_def drop_map)


text \<open>
  C6. For every feed and lookback, the gauge works on the window of the last \<open>lookback\<close>
  (high, low) pairs, or on all pairs when the history is shorter. It returns
  \<open>(max(highs) - min(lows)) / (min(lows) / 100)\<close> when the window has at least one pair and
  \<open>min(lows)\<close> is not zero, and 0 when the window is empty or \<open>min(lows) = 0\<close>. For highs
  \<open>[110, 120, 100]\<close>, lows \<open>[90, 95, 80]\<close> and lookback 3 it returns 50.
\<close>

theorem volatility_gauge_value:
  "fst (VolatilityCalculator_calculate (VolatilityCalculator_init d lookback)) =
     (let w = data_get (min lookback (int (length (bars d)))) (bars d);
          highs = map fst w;
          lows = map snd w
      in if w = [] \<or> Min (set lows) = 0 then 0
         else (Max (set highs) - Min (set lows)) / (Min (set lows) / 100))
   \<and> fst (VolatilityCalculator_calculate (VolatilityCalculator_init
        \<lparr>feed_name = Some ''A'', bars = [(110, 90), (120, 95), (100, 80)]\<rparr> 3)) = 50"
proof -
  let ?w = "data_get (min lookback (int (length (bars d)))) (bars d)"
  have general: "fst (VolatilityCalculator_calculate (VolatilityCalculator_init d lookback)) =
     (let w = ?w; highs = map fst w; lows = map snd w
      in if w = [] \<or> Min (set lows) = 0 then 0
         else (Max (set highs) - Min (set lows)) / (Min (set lows) / 100))"
  proof (cases "?w = []")
    case True
    then show ?thesis
      by (simp add: VolatilityCalculator_calculate_def VolatilityCalculator_init_def
          data_get_map Let_def)
  next
    case False
    then have "bars d \<noteq> []"
      by (auto simp: data_get_def)
    then have "\<not> length (bars d) < 1"
      by (cases "bars d") simp_all
    then show ?thesis
      using False
      by (simp add: VolatilityCalculator_calculate_def VolatilityCalculator_init_def
          data_get_map Let_def np_max_Max np_min_Min)
  qed
  have example: "fst (VolatilityCalculator_calculate (VolatilityCalculator_init
        \<lparr>feed_name = Some ''A'', bars = [(110, 90), (120, 95), (100, 80)]\<rparr> 3)) = 50"
    by (simp add: VolatilityCalculator_calculate_def VolatilityCalculator_init_def
        data_get_def Let_def)
  from general example show ?thesis by (rule conjI)
qed

theorem volatility_gauge_value_witness:
  "fst (VolatilityCalculator_calculate (VolatilityCalculator_init
        \<lparr>feed_name = Some ''Z'', bars = [(3, 0), (4, 2)]\<rparr> 2)) = 0
   \<and> fst (VolatilityCalculator_calculate (VolatilityCalculator_init
        \<lparr>feed_name = Some ''E'', bars = []\<rparr> 2)) = 0"
  using volatility_gauge_value [of "\<lparr>feed_name = Some ''Z'', bars = [(3, 0), (4, 2)]\<rparr>" 2]
     volatility_gauge_value [of "\<lparr>feed_name = Some ''E'', bars = []\<rparr>" 2]
  by (simp add: data_get_def)

section \<open>Cluster membership, construction and recomputation\<close>

text \<open>
  C10. For every feed that carries a name and every integer \<open>cluster_number\<close>, the query
  \<open>is_in_cluster\<close> returns a boolean and does not raise: for 1, 2 and 3 it tells whether
  the name is a key of the corresponding mapping, and for every other number it returns
  False.
\<close>

theorem is_in_cluster_total:
  assumes "feed_name data = Some n"
  shows "is_in_cluster self data cluster_number =
           Inr (if cluster_number = 1 then n \<in> dom (cluster_one self)
                else if cluster_number = 2 then n \<in> dom (cluster_two self)
                else if cluster_number = 3 then n \<in> dom (cluster_three self)
                else False)
       \<and> (cluster_number \<noteq> 1 \<and> cluster_number \<noteq> 2 \<and> cluster_number \<noteq> 3
            \<longrightarrow> is_in_cluster self data cluster_number = Inr False)"
  using assms by (simp add: is_in_cluster_def)


theorem is_in_cluster_total_witness:
  "feed_name \<lparr>feed_name = Some ''A'', bars = []\<rparr> = Some ''A''
     \<and> is_in_cluster (default_clusters 30) \<lparr>feed_name = Some ''A'', bars = []\<rparr> 1 = Inr False
     \<and> is_in_cluster (default_clusters 30) \<lparr>feed_name = Some ''A'', bars = []\<rparr> 0 = Inr False
     \<and> is_in_cluster (default_clusters 30) \<lparr>feed_name = Some ''A'', bars = []\<rparr> 4 = Inr False
     \<and> is_in_cluster (default_clusters 30) \<lparr>feed_name = Some ''A'', bars = []\<rparr> (- 1)
           = Inr False"
  using is_in_cluster_total [of "\<lparr>feed_name = Some ''A'', bars = []\<rparr>" "''A''"
      "default_clusters 30" 1]
    is_in_cluster_total [of "\<lparr>feed_name = Some ''A'', bars = []\<rparr>" "''A''"
      "default_clusters 30" 0]
    is_in_cluster_total [of "\<lparr>feed_name = Some ''A'', bars = []\<rparr>" "''A''"
      "default_clusters 30" 4]
    is_in_cluster_total [of "\<lparr>feed_name = Some ''A'', bars = []\<rparr>" "''A''"
      "default_clusters 30" "- 1"]
  by (simp add: default_clusters_def)


lemma assign_loop_config:
  "vsc_length (assign_loop l1 l2 srcs js s) = vsc_length s
     \<and> cluster_one_percent (assign_loop l1 l2 srcs js s) = cluster_one_percent s
     \<and> cluster_two_percent (assign_loop l1 l2 srcs js s) = cluster_two_percent s
     \<and> cluster_three_percent (assign_loop l1 l2 srcs js s) = cluster_three_percent s
     \<and> one_lot (assign_loop l1 l2 srcs js s) = one_lot s"
  by (induction js arbitrary: s) (simp_all add: Let_def)

lemma calculate_config:
  "vsc_length (result_state (calculate s feeds)) = vsc_length s
     \<and> cluster_one_percent (result_state (calculate s feeds)) = cluster_one_percent s
     \<and> cluster_two_percent (result_state (calculate s feeds)) = cluster_two_percent s
     \<and> cluster_three_percent (result_state (calculate s feeds)) = cluster_three_percent s"
  by (simp add: calculate_def calculate_clusters_def clear_clusters_def result_state_def
      Let_def assign_loop_config)

lemma collect_sources_empty_iff:
  "collect_sources len ds = [] \<longleftrightarrow> (\<forall>d\<in>set ds. int (length (bars d)) < len)"
  by (induction ds) simp_all

lemma calculate_no_sources:
  assumes "collect_sources (vsc_length self) data_feeds = []"
  shows "calculate self data_feeds = Inr (clear_clusters self)"
  using assms by (simp add: calculate_def calculate_clusters_def clear_clusters_def Let_def)

lemma calculate_one_source:
  assumes "length (collect_sources (vsc_length self) data_feeds) = 1"
  shows "calculate self data_feeds = Inl (AttributeError, clear_clusters self)"
proof -
  have "data_feeds \<noteq> []" using assms by auto
  then show ?thesis
  using assms by (simp add: calculate_def calculate_clusters_def clear_clusters_def Let_def)
qed

lemma cleared_membership:
  "feed_name d = Some n \<Longrightarrow> is_in_cluster (clear_clusters self) d k = Inr False"
  by (simp add: is_in_cluster_def clear_clusters_def)


lemma default_clusters_init:
  "VolatilityStageClusters_init lookback 33 33 34 = Inr (default_clusters lookback)"
  by (simp add: VolatilityStageClusters_init_def default_clusters_def)





section \<open>The partition into three clusters\<close>


lemma assign_loop_dom:
  "dom (cluster_one (assign_loop l1 l2 srcs js s)) =
     dom (cluster_one s) \<union> src_name ` set (map ((!) srcs) (filter (\<lambda>i. real (i + 1) \<le> l1) js))
   \<and> dom (cluster_two (assign_loop l1 l2 srcs js s)) =
     dom (cluster_two s)
       \<union> src_name ` set (map ((!) srcs)
           (filter (\<lambda>i. l1 < real (i + 1) \<and> real (i + 1) \<le> l2) js))
   \<and> dom (cluster_three (assign_loop l1 l2 srcs js s)) =
     dom (cluster_three s)
       \<union> src_name ` set (map ((!) srcs)
           (filter (\<lambda>i. l1 < real (i + 1) \<and> l2 < real (i + 1)) js))"
proof (induction js arbitrary: s)
  case Nil
  then show ?case by simp
next
  case (Cons i js)
  show ?case
    by (simp add: Let_def not_le Cons.IH) (auto simp: dom_def split: if_splits)
qed

lemma calculate_many:
  assumes "2 \<le> length (collect_sources (vsc_length self) data_feeds)"
  shows "calculate self data_feeds =
     Inr (assign_loop
            (cluster_one_percent self
               * (real (length (collect_sources (vsc_length self) data_feeds)) / 100))
            ((cluster_one_percent self + cluster_two_percent self)
               * (real (length (collect_sources (vsc_length self) data_feeds)) / 100))
            (sort_key src_volatility (collect_sources (vsc_length self) data_feeds))
            [0..<length (collect_sources (vsc_length self) data_feeds)]
            ((clear_clusters self)
               \<lparr>one_lot := real (length (collect_sources (vsc_length self) data_feeds)) / 100\<rparr>))"
proof -
  have "data_feeds \<noteq> []" using assms by auto
  then show ?thesis
    using assms
    by (simp add: calculate_def calculate_clusters_def Let_def clear_clusters_def)
qed








section \<open>Recomputation with fewer than two eligible instruments\<close>

text \<open>
  C3, as amended. When \<open>calculate\<close> is invoked with zero eligible instruments (an empty
  feed list, or no feed with at least lookback observations) it clears the previous
  assignment: it returns with the three mappings and the three lists empty, so that
  every membership query of a named feed answers False, and with \<open>one_lot\<close> as it was.
  Only the inner step \<open>_calculate_clusters\<close>, taken alone, leaves the object as it found
  it.
\<close>

theorem recompute_without_eligible_clears:
  assumes "\<forall>d\<in>set data_feeds. int (length (bars d)) < vsc_length self"
  shows "calculate self data_feeds = Inr (clear_clusters self)
       \<and> cluster_one (clear_clusters self) = Map.empty
       \<and> cluster_two (clear_clusters self) = Map.empty
       \<and> cluster_three (clear_clusters self) = Map.empty
       \<and> cluster_one_full (clear_clusters self) = []
       \<and> cluster_two_full (clear_clusters self) = []
       \<and> cluster_three_full (clear_clusters self) = []
       \<and> one_lot (clear_clusters self) = one_lot self
       \<and> (\<forall>d n k. feed_name d = Some n \<longrightarrow>
             is_in_cluster (result_state (calculate self data_feeds)) d k = Inr False)
       \<and> calculate_clusters self data_feeds = Inr self"
proof -
  have none: "collect_sources (vsc_length self) data_feeds = []"
    using assms by (simp add: collect_sources_empty_iff)
  then have run: "calculate self data_feeds = Inr (clear_clusters self)"
    by (rule calculate_no_sources)
  have inner: "calculate_clusters self data_feeds = Inr self"
    using none by (simp add: calculate_clusters_def Let_def)
  have "\<forall>d n k. feed_name d = Some n \<longrightarrow>
      is_in_cluster (result_state (calculate self data_feeds)) d k = Inr False"
    unfolding run by (simp add: result_state_def cleared_membership)
  with run inner show ?thesis
    by (simp add: clear_clusters_def)
qed

theorem recompute_without_eligible_clears_witness:
  "int (length (bars \<lparr>feed_name = Some ''E'', bars = []\<rparr>))
       < vsc_length (result_state (calculate (default_clusters 1) two_feeds))
     \<and> feed_name (two_feeds ! 0) = Some ''S01''
     \<and> is_in_cluster
         (result_state
            (calculate (result_state (calculate (default_clusters 1) two_feeds))
               [\<lparr>feed_name = Some ''E'', bars = []\<rparr>]))
         (two_feeds ! 0) 2 = Inr False"
proof -
  have cfg: "vsc_length (result_state (calculate (default_clusters 1) two_feeds)) = 1"
    by (simp add: calculate_config default_clusters_def)
  have short: "\<forall>d\<in>set [\<lparr>feed_name = Some ''E'', bars = []\<rparr>].
      int (length (bars d)) < vsc_length (result_state (calculate (default_clusters 1) two_feeds))"
    unfolding cfg by simp
  have name: "feed_name (two_feeds ! 0) = Some ''S01''"
    by (simp add: two_feeds_def)
  from recompute_without_eligible_clears [OF short]
  have "\<forall>d n k. feed_name d = Some n \<longrightarrow>
      is_in_cluster
        (result_state
           (calculate (result_state (calculate (default_clusters 1) two_feeds))
              [\<lparr>feed_name = Some ''E'', bars = []\<rparr>])) d k = Inr False"
    by blast
  with name have "is_in_cluster
        (result_state
           (calculate (result_state (calculate (default_clusters 1) two_feeds))
              [\<lparr>feed_name = Some ''E'', bars = []\<rparr>])) (two_feeds ! 0) 2 = Inr False"
    by blast
  with cfg name show ?thesis
    by simp
qed

lemma two_feeds_cluster_two:
  "dom (cluster_two (result_state (calculate (default_clusters 1) two_feeds))) = {''S01''}"
proof -
  have len: "vsc_length (default_clusters 1) = 1"
    by (simp add: default_clusters_def)
  have cs: "collect_sources 1 two_feeds =
      [\<lparr>src_data = \<lparr>feed_name = Some ''S01'', bars = [(101, 100)]\<rparr>, src_volatility = 1,
        src_name = ''S01''\<rparr>,
       \<lparr>src_data = \<lparr>feed_name = Some ''S02'', bars = [(102, 100)]\<rparr>, src_volatility = 2,
        src_name = ''S02''\<rparr>]"
    by (simp add: two_feeds_def VolatilityCalculator_calculate_def
        VolatilityCalculator_init_def data_get_def Let_def)
  have "2 \<le> length (collect_sources (vsc_length (default_clusters 1)) two_feeds)"
    unfolding len cs by simp
  from calculate_many [OF this] show ?thesis
    unfolding len cs
    by (simp add: result_state_def assign_loop_dom clear_clusters_def default_clusters_def)
qed

text \<open>
  C3 as first stated says that the previous assignment persists. After a recomputation
  on two instruments the first one is in cluster 2; a further \<open>calculate\<close> on the empty
  feed list removes it.
\<close>

theorem stale_assignment_counterexample:
  "is_in_cluster (result_state (calculate (default_clusters 1) two_feeds))
       (two_feeds ! 0) 2 = Inr True
   \<and> is_in_cluster
       (result_state
          (calculate (result_state (calculate (default_clusters 1) two_feeds)) []))
       (two_feeds ! 0) 2 = Inr False"
proof -
  have name: "feed_name (two_feeds ! 0) = Some ''S01''"
    by (simp add: two_feeds_def)
  have before: "is_in_cluster (result_state (calculate (default_clusters 1) two_feeds))
       (two_feeds ! 0) 2 = Inr True"
    by (simp add: is_in_cluster_def name two_feeds_cluster_two)
  have "calculate (result_state (calculate (default_clusters 1) two_feeds)) [] =
      Inr (clear_clusters (result_state (calculate (default_clusters 1) two_feeds)))"
    by (rule calculate_no_sources) simp
  then have "is_in_cluster
       (result_state
          (calculate (result_state (calculate (default_clusters 1) two_feeds)) []))
       (two_feeds ! 0) 2 = Inr False"
    by (simp add: result_state_def cleared_membership [OF name])
  with before show ?thesis
    by simp
qed

text \<open>
  C2. With exactly one eligible instrument the claim places it in cluster 1. The code
  instead calls \<^verbatim>\<open>append\<close> on the mapping \<^verbatim>\<open>self.cluster_one\<close>: the recomputation
  raises, the clusters stay cleared, and the membership query for the instrument and
  cluster 1 answers False.
\<close>

theorem single_instrument_raises:
  "calculate (default_clusters 1) [\<lparr>feed_name = Some ''A'', bars = [(110, 90)]\<rparr>] =
     Inl (AttributeError, default_clusters 1)
   \<and> is_in_cluster
        (result_state
           (calculate (default_clusters 1) [\<lparr>feed_name = Some ''A'', bars = [(110, 90)]\<rparr>]))
        \<lparr>feed_name = Some ''A'', bars = [(110, 90)]\<rparr> 1 = Inr False"
  by (simp add: calculate_def calculate_clusters_def clear_clusters_def default_clusters_def
      result_state_def is_in_cluster_def Let_def)

end
